theory Spec2Isabelle
  imports Complex_Main "HOL-Library.Log_Nat"
begin

section \<open>Face attendance: the verification engine and its request handlers\<close>

text \<open>
  A shallow embedding of \<^verbatim>\<open>face_attendance_ai/face_engine.py\<close> and
  \<^verbatim>\<open>face_attendance_ai/main.py\<close>.

  Strings are character lists, a character being a code point below 256; the string
  operations are those of Python on ASCII strings, and a property that depends on them
  is stated for ASCII strings. A Python float is the rational number that is its value,
  and an operation on floats is the exact operation followed by the rounding to the
  nearest double, a tie going to the even significand (the doubles are taken with an
  unbounded exponent: overflow, underflow to subnormals, infinities and NaN are outside
  the model). The registered-faces directory is either absent or a directory with a
  listing, names are compared exactly (a case-sensitive file system), and its state does
  not change during one request. The counting of requests by the rate limiter and the
  calls of \<^verbatim>\<open>logger\<close> are not modelled.
\<close>

subsection \<open>Python values\<close>

type_synonym path = string

datatype exn =
    HTTPException nat string
  | FileNotFoundError string
  | OtherException string

datatype 'a outcome = Returns 'a | Raises exn

datatype 'a response = HTTPError nat string | OK 'a

subsection \<open>Python string operations\<close>

definition ascii_uppercase :: string where
  "ascii_uppercase = ''ABCDEFGHIJKLMNOPQRSTUVWXYZ''"

definition ascii_lowercase :: string where
  "ascii_lowercase = ''abcdefghijklmnopqrstuvwxyz''"

definition lower_char :: "char \<Rightarrow> char" where
  "lower_char c =
     (case map_of (zip ascii_uppercase ascii_lowercase) c of Some l \<Rightarrow> l | None \<Rightarrow> c)"

definition py_lower :: "string \<Rightarrow> string" where
  "py_lower s = map lower_char s"

definition endswith :: "string \<Rightarrow> string \<Rightarrow> bool" where
  "endswith s suf = (length suf \<le> length s \<and> drop (length s - length suf) s = suf)"

definition startswith :: "string \<Rightarrow> string \<Rightarrow> bool" where
  "startswith s pre = (take (length pre) s = pre)"








text \<open>\<^verbatim>\<open>os.path.join\<close> of \<^verbatim>\<open>posixpath\<close> for two components.\<close>

definition path_join :: "path \<Rightarrow> path \<Rightarrow> path" where
  "path_join a b =
     (if startswith b ''/'' then b
      else if a = [] \<or> endswith a ''/'' then a @ b
      else a @ ''/'' @ b)"

subsection \<open>Python floats\<close>

text \<open>The nearest integer, a tie going to the even one.\<close>

definition round_half_even :: "rat \<Rightarrow> int" where
  "round_half_even y =
     (let f = \<lfloor>y\<rfloor>;
          r = y - of_int f
      in if r < 1 / 2 then f
         else if 1 / 2 < r then f + 1
         else if even f then f else f + 1)"

text \<open>The exponent of a positive number: the \<open>e\<close> with \<open>2 ^ e \<le> a < 2 ^ (e + 1)\<close>.\<close>

definition ilog2 :: "rat \<Rightarrow> int" where
  "ilog2 a = (if 1 \<le> a then bitlen \<lfloor>a\<rfloor> - 1 else - bitlen (\<lceil>1 / a\<rceil> - 1))"

definition pow2 :: "int \<Rightarrow> rat" where
  "pow2 e = (if 0 \<le> e then 2 ^ nat e else 1 / 2 ^ nat (- e))"

text \<open>The nearest double: 53 significant bits, so the doubles around \<open>x\<close> are the
  multiples of \<open>2 ^ (e - 52)\<close> where \<open>e\<close> is the exponent of \<open>x\<close>.\<close>

definition round_double :: "rat \<Rightarrow> rat" where
  "round_double x =
     (if x = 0 then 0
      else (let q = pow2 (ilog2 \<bar>x\<bar> - 52) in of_int (round_half_even (x / q)) * q))"

definition float_sub :: "rat \<Rightarrow> rat \<Rightarrow> rat" where
  "float_sub a b = round_double (a - b)"

definition float_mul :: "rat \<Rightarrow> rat \<Rightarrow> rat" where
  "float_mul a b = round_double (a * b)"

text \<open>\<^verbatim>\<open>round(x, 1)\<close> on a float: the value of the float is rounded to one decimal
  place, a tie going to the even digit, and the decimal is converted to the nearest
  double.\<close>

definition py_round1 :: "rat \<Rightarrow> rat" where
  "py_round1 x = round_double (of_int (round_half_even (x * 10)) / 10)"

subsection \<open>Constants\<close>

text \<open>Modelled from the spec: \<^verbatim>\<open>constants.py\<close> is not among the sources. The
  threshold is the spec's default 0.4, which \<^verbatim>\<open>debug_test.py\<close> applies as well.\<close>

definition FACE_DISTANCE_THRESHOLD :: rat where
  "FACE_DISTANCE_THRESHOLD = 2 / 5"

text \<open>Modelled from the spec: \<^verbatim>\<open>constants.py\<close> is not among the sources. The
  allow-list of extensions is the one of the spec, which \<^verbatim>\<open>list_registered_faces\<close>
  and \<^verbatim>\<open>debug_test.py\<close> write out.\<close>

definition SUPPORTED_IMAGE_FORMATS :: "string list" where
  "SUPPORTED_IMAGE_FORMATS = [''.jpg'', ''.jpeg'', ''.png'']"

text \<open>Modelled from the spec: \<^verbatim>\<open>constants.py\<close> is not among the sources. The
  directory is the one \<^verbatim>\<open>register_face\<close> writes to.\<close>

definition REGISTERED_FACES_DIR :: path where
  "REGISTERED_FACES_DIR = ''images/registered''"

subsection \<open>The environment of a request\<close>

text \<open>The state of the registered-faces directory: absent, or present with the
  listing that \<^verbatim>\<open>os.listdir\<close> returns, in its order.\<close>

datatype gallery = Missing | Dir "string list"

text \<open>
  The collaborators whose code is outside the sources are parameters: the capture, the
  spoof check and the audit log of \<^verbatim>\<open>utils.py\<close>, the comparison of the DeepFace
  library (for the configured model and detector, with \<^verbatim>\<open>enforce_detection=False\<close>),
  the copy of \<^verbatim>\<open>shutil\<close>, and the temporary file of an upload. Each returns or
  raises.
\<close>

record env =
  gallery :: gallery
  capture_face :: "path outcome"
  basic_spoof_check :: "path \<Rightarrow> bool outcome"
  DeepFace_verify :: "path \<Rightarrow> path \<Rightarrow> (bool \<times> rat) outcome"
  log_verification :: "string option \<Rightarrow> bool \<Rightarrow> rat option \<Rightarrow> unit outcome"
  shutil_copy2 :: "path \<Rightarrow> path \<Rightarrow> unit outcome"
  save_upload :: "path outcome"
  os_unlink :: "path \<Rightarrow> unit outcome"

text \<open>What a request does besides answering: the calls of the comparison, the lines
  that \<^verbatim>\<open>verify_face\<close> prints, and the calls of the audit log.\<close>

datatype event =
    OracleCall path path
  | PrintError string exn
  | AuditCall "string option" bool "rat option"

fun is_oracle_call :: "event \<Rightarrow> bool" where
  "is_oracle_call (OracleCall a b) = True"
| "is_oracle_call (PrintError p e) = False"
| "is_oracle_call (AuditCall m v s) = False"

fun is_audit_call :: "event \<Rightarrow> bool" where
  "is_audit_call (OracleCall a b) = False"
| "is_audit_call (PrintError p e) = False"
| "is_audit_call (AuditCall m v s) = True"

subsection \<open>face_engine.py\<close>

text \<open>The dictionary that \<^verbatim>\<open>verify_face\<close> and the handler \<^verbatim>\<open>verify\<close>
  return; \<open>error\<close> is \<open>None\<close> when the key is absent.\<close>

record result_dict =
  verified :: bool
  matched_with :: "string option"
  score :: "rat option"
  error :: "string option"

definition is_supported :: "string \<Rightarrow> bool" where
  "is_supported person = list_ex (endswith (py_lower person)) SUPPORTED_IMAGE_FORMATS"

definition no_match :: result_dict where
  "no_match = \<lparr>verified = False, matched_with = None, score = None, error = None\<rparr>"

definition matched :: "string \<Rightarrow> rat \<Rightarrow> result_dict" where
  "matched person d =
     \<lparr>verified = True, matched_with = Some person, score = Some d, error = None\<rparr>"

text \<open>The loop of \<^verbatim>\<open>verify_face\<close> over the listing.\<close>

fun scan :: "(path \<Rightarrow> path \<Rightarrow> (bool \<times> rat) outcome) \<Rightarrow> path \<Rightarrow> path \<Rightarrow> string list
    \<Rightarrow> result_dict \<times> event list" where
  "scan orc input_path known_faces_dir [] = (no_match, [])"
| "scan orc input_path known_faces_dir (person # rest) =
     (if \<not> is_supported person then scan orc input_path known_faces_dir rest
      else
        (let ref_path = path_join known_faces_dir person in
         case orc input_path ref_path of
           Raises e \<Rightarrow>
             apsnd (\<lambda>tr. OracleCall input_path ref_path # PrintError person e # tr)
               (scan orc input_path known_faces_dir rest)
         | Returns result \<Rightarrow>
             if fst result \<and> snd result < FACE_DISTANCE_THRESHOLD
             then (matched person (snd result), [OracleCall input_path ref_path])
             else apsnd (\<lambda>tr. OracleCall input_path ref_path # tr)
                    (scan orc input_path known_faces_dir rest)))"

definition verify_face :: "env \<Rightarrow> path \<Rightarrow> result_dict outcome \<times> event list" where
  "verify_face env input_path =
     (case gallery env of
        Missing \<Rightarrow> (Raises (FileNotFoundError REGISTERED_FACES_DIR), [])
      | Dir entries \<Rightarrow>
          apfst Returns (scan (DeepFace_verify env) input_path REGISTERED_FACES_DIR entries))"

text \<open>The identities of a gallery: the entries of the listing that the scan does not
  skip.\<close>

definition identities :: "gallery \<Rightarrow> string list" where
  "identities g = (case g of Missing \<Rightarrow> [] | Dir entries \<Rightarrow> filter is_supported entries)"

text \<open>An entry that ends the scan: a supported image on which the comparison reports
  \<^verbatim>\<open>verified\<close> with a distance below the threshold.\<close>

definition hit :: "(path \<Rightarrow> path \<Rightarrow> (bool \<times> rat) outcome) \<Rightarrow> path \<Rightarrow> path \<Rightarrow> string \<Rightarrow> bool" where
  "hit orc input_path known_faces_dir person =
     (is_supported person \<and>
      (case orc input_path (path_join known_faces_dir person) of
         Raises e \<Rightarrow> False
       | Returns result \<Rightarrow> fst result \<and> snd result < FACE_DISTANCE_THRESHOLD))"

subsection \<open>main.py: /api/verify\<close>

definition spoof_rejected :: result_dict where
  "spoof_rejected = \<lparr>verified = False, matched_with = None, score = Some 0, error = None\<rparr>"

definition internal_error :: result_dict where
  "internal_error =
     \<lparr>verified = False, matched_with = None, score = Some 0,
      error = Some ''Internal server error''\<rparr>"

definition no_faces_detail :: string where
  "no_faces_detail =
     ''No registered faces found. Please add faces to images/registered/ directory.''"

text \<open>\<^verbatim>\<open>not os.path.exists(DIR) or not os.listdir(DIR)\<close>\<close>

definition gallery_check_fails :: "gallery \<Rightarrow> bool" where
  "gallery_check_fails g = (case g of Missing \<Rightarrow> True | Dir entries \<Rightarrow> entries = [])"

text \<open>The body of the \<^verbatim>\<open>try\<close> of \<^verbatim>\<open>verify\<close>.\<close>

definition verify_body :: "env \<Rightarrow> result_dict outcome \<times> event list" where
  "verify_body env =
     (if gallery_check_fails (gallery env)
      then (Raises (HTTPException 400 no_faces_detail), [])
      else
        case capture_face env of
          Raises e \<Rightarrow> (Raises e, [])
        | Returns path \<Rightarrow>
           (case basic_spoof_check env path of
              Raises e \<Rightarrow> (Raises e, [])
            | Returns live \<Rightarrow>
               if \<not> live then (Returns spoof_rejected, [])
               else
                 (case verify_face env path of
                    (Raises e, tr) \<Rightarrow> (Raises e, tr)
                  | (Returns result, tr) \<Rightarrow>
                     (let tr' = tr @ [AuditCall (matched_with result) (verified result)
                                        (score result)]
                      in case log_verification env (matched_with result) (verified result)
                                (score result) of
                           Raises e \<Rightarrow> (Raises e, tr')
                         | Returns u \<Rightarrow> (Returns result, tr')))))"

text \<open>The \<^verbatim>\<open>except\<close> clauses of \<^verbatim>\<open>verify\<close>, in their order.\<close>

fun verify_except :: "result_dict outcome \<Rightarrow> result_dict response" where
  "verify_except (Returns result) = OK result"
| "verify_except (Raises (HTTPException status detail)) = HTTPError status detail"
| "verify_except (Raises (FileNotFoundError m)) =
     HTTPError 500 ''Required files or directories not found''"
| "verify_except (Raises (OtherException m)) = OK internal_error"

definition verify :: "env \<Rightarrow> result_dict response \<times> event list" where
  "verify env = apfst verify_except (verify_body env)"

text \<open>The declared \<^verbatim>\<open>response_model\<close> of the route: the three fields of the class
  \<^verbatim>\<open>FaceVerifyResponse\<close>; a key of the returned dictionary that is not a field is
  not serialised.\<close>

record FaceVerifyResponse =
  r_verified :: bool
  r_matched_with :: "string option"
  r_score :: "rat option"

definition to_FaceVerifyResponse :: "result_dict \<Rightarrow> FaceVerifyResponse" where
  "to_FaceVerifyResponse d =
     \<lparr>r_verified = verified d, r_matched_with = matched_with d, r_score = score d\<rparr>"

fun map_response :: "('a \<Rightarrow> 'b) \<Rightarrow> 'a response \<Rightarrow> 'b response" where
  "map_response f (HTTPError status detail) = HTTPError status detail"
| "map_response f (OK body) = OK (f body)"

definition api_verify :: "env \<Rightarrow> FaceVerifyResponse response" where
  "api_verify env = map_response to_FaceVerifyResponse (fst (verify env))"

subsection \<open>main.py: /api/register and /api/registered\<close>














subsection \<open>main.py: /verify-face\<close>

record ClientVerifyResponse =
  match :: bool
  confidence :: rat

text \<open>\<^verbatim>\<open>max(0.0, min(100.0, (1 - result["score"]) * 100))\<close>\<close>

definition confidence_of :: "rat \<Rightarrow> rat" where
  "confidence_of d = max 0 (min 100 (float_mul (float_sub 1 d) 100))"

text \<open>The inner \<^verbatim>\<open>try\<close> of \<^verbatim>\<open>verify_face_from_photo\<close>, before its
  \<^verbatim>\<open>finally\<close>.\<close>

definition photo_inner :: "env \<Rightarrow> path \<Rightarrow> ClientVerifyResponse outcome \<times> event list" where
  "photo_inner env temp_path =
     (case basic_spoof_check env temp_path of
        Raises e \<Rightarrow> (Raises e, [])
      | Returns live \<Rightarrow>
         if \<not> live then (Returns \<lparr>match = False, confidence = 0\<rparr>, [])
         else
           (case verify_face env temp_path of
              (Raises e, tr) \<Rightarrow> (Raises e, tr)
            | (Returns result, tr) \<Rightarrow>
               if verified result then
                 (case score result of
                    None \<Rightarrow> (Raises (OtherException ''TypeError''), tr)
                  | Some d \<Rightarrow>
                     (let confidence = confidence_of d;
                          tr' = tr @ [AuditCall (matched_with result) True (score result)]
                      in case log_verification env (matched_with result) True (score result) of
                           Raises e \<Rightarrow> (Raises e, tr')
                         | Returns u \<Rightarrow>
                            (Returns \<lparr>match = True, confidence = py_round1 confidence\<rparr>, tr')))
               else
                 (let tr' = tr @ [AuditCall None False None]
                  in case log_verification env None False None of
                       Raises e \<Rightarrow> (Raises e, tr')
                     | Returns u \<Rightarrow> (Returns \<lparr>match = False, confidence = 0\<rparr>, tr'))))"

text \<open>The \<^verbatim>\<open>finally\<close> clause: the temporary file exists, so it is unlinked, and
  an exception of the unlink replaces the outcome of the block.\<close>

definition photo_finally :: "env \<Rightarrow> path \<Rightarrow> 'a outcome \<times> event list \<Rightarrow> 'a outcome \<times> event list" where
  "photo_finally env temp_path r =
     (case os_unlink env temp_path of
        Raises e \<Rightarrow> (Raises e, snd r)
      | Returns u \<Rightarrow> r)"

definition photo_body :: "env \<Rightarrow> string option \<Rightarrow> ClientVerifyResponse outcome \<times> event list" where
  "photo_body env content_type =
     (case content_type of
        None \<Rightarrow> (Raises (OtherException ''AttributeError''), [])
      | Some ct \<Rightarrow>
         if \<not> startswith ct ''image/''
         then (Raises (HTTPException 400 ''File must be an image''), [])
         else if gallery_check_fails (gallery env)
         then (Raises (HTTPException 400 ''No registered employees found in system''), [])
         else
           (case save_upload env of
              Raises e \<Rightarrow> (Raises e, [])
            | Returns temp_path \<Rightarrow> photo_finally env temp_path (photo_inner env temp_path)))"

fun photo_except :: "ClientVerifyResponse outcome \<Rightarrow> ClientVerifyResponse response" where
  "photo_except (Returns resp) = OK resp"
| "photo_except (Raises (HTTPException status detail)) = HTTPError status detail"
| "photo_except (Raises (FileNotFoundError m)) = HTTPError 500 ''Face verification failed''"
| "photo_except (Raises (OtherException m)) = HTTPError 500 ''Face verification failed''"

definition verify_face_from_photo :: "env \<Rightarrow> string option
    \<Rightarrow> ClientVerifyResponse response \<times> event list" where
  "verify_face_from_photo env content_type = apfst photo_except (photo_body env content_type)"

subsection \<open>Sample environments\<close>

text \<open>A gallery of a placeholder, a reference image on which the comparison raises, and
  two images of which the second is the closer one; every other collaborator succeeds.\<close>

definition sample_oracle :: "path \<Rightarrow> path \<Rightarrow> (bool \<times> rat) outcome" where
  "sample_oracle img1_path img2_path =
     (if img2_path = ''images/registered/bad.png'' then Raises (OtherException ''corrupt'')
      else if img2_path = ''images/registered/a.jpg'' then Returns (True, 3 / 10)
      else if img2_path = ''images/registered/b.jpg'' then Returns (True, 1 / 64)
      else Returns (False, 9 / 10))"

definition sample_env :: env where
  "sample_env =
     \<lparr>gallery = Dir [''.gitkeep'', ''bad.png'', ''a.jpg'', ''b.jpg''],
      capture_face = Returns ''images/captured/face.jpg'',
      basic_spoof_check = (\<lambda>p. Returns True),
      DeepFace_verify = sample_oracle,
      log_verification = (\<lambda>m v s. Returns ()),
      shutil_copy2 = (\<lambda>src dst. Returns ()),
      save_upload = Returns ''/tmp/upload.jpg'',
      os_unlink = (\<lambda>p. Returns ())\<rparr>"

text \<open>The same with a capture that the spoof check rejects.\<close>

definition spoof_env :: env where
  "spoof_env = sample_env\<lparr>basic_spoof_check := (\<lambda>p. Returns False)\<rparr>"

text \<open>The same with only the placeholder in the directory, as in a fresh checkout.\<close>

definition placeholder_env :: env where
  "placeholder_env = sample_env\<lparr>gallery := Dir [''.gitkeep'']\<rparr>"

text \<open>The same with a camera that cannot be opened.\<close>

definition camera_down_env :: env where
  "camera_down_env = sample_env\<lparr>capture_face := Raises (OtherException ''no camera'')\<rparr>"

text \<open>The same with only the closer image enrolled.\<close>

definition close_env :: env where
  "close_env = sample_env\<lparr>gallery := Dir [''b.jpg'']\<rparr>"

text \<open>The same with an image that matches nobody.\<close>

definition stranger_env :: env where
  "stranger_env = sample_env\<lparr>gallery := Dir [''c.jpg'']\<rparr>"




section \<open>Properties\<close>

subsection \<open>The scan\<close>

lemma scan_no_hit_prefix:
  "\<forall>q\<in>set pre. \<not> hit orc inp dir q \<Longrightarrow>
   scan orc inp dir (pre @ rest) =
     (fst (scan orc inp dir rest), snd (scan orc inp dir pre) @ snd (scan orc inp dir rest))"
  by (induction pre) (auto simp: hit_def Let_def split: outcome.splits)

lemma oracle_calls_no_hit:
  "\<forall>q\<in>set pre. \<not> hit orc inp dir q \<Longrightarrow>
   filter is_oracle_call (snd (scan orc inp dir pre)) =
     map (\<lambda>q. OracleCall inp (path_join dir q)) (filter is_supported pre)"
  by (induction pre) (auto simp: hit_def Let_def split: outcome.splits)

lemma scan_hit_head:
  "is_supported p \<Longrightarrow> orc inp (path_join dir p) = Returns (True, d) \<Longrightarrow>
   d < FACE_DISTANCE_THRESHOLD \<Longrightarrow>
   scan orc inp dir (p # post) = (matched p d, [OracleCall inp (path_join dir p)])"
  by simp

lemma scan_raise_head:
  "is_supported p \<Longrightarrow> orc inp (path_join dir p) = Raises e \<Longrightarrow>
   scan orc inp dir (p # post) =
     (fst (scan orc inp dir post),
      OracleCall inp (path_join dir p) # PrintError p e # snd (scan orc inp dir post))"
  by (simp add: apsnd_def map_prod_def split: prod.splits)

lemma scan_result:
  "fst (scan orc inp dir es) = no_match \<or> (\<exists>p d. fst (scan orc inp dir es) = matched p d)"
  by (induction es) (auto simp: Let_def split: outcome.splits)

lemma scan_no_audit: "filter is_audit_call (snd (scan orc inp dir es)) = []"
  by (induction es) (auto simp: Let_def split: outcome.splits)

lemma is_supported_samples:
  "\<not> is_supported ''.gitkeep''" "is_supported ''bad.png''" "is_supported ''a.jpg''"
  "is_supported ''b.jpg''" "is_supported ''c.jpg''"
  by (simp_all add: is_supported_def SUPPORTED_IMAGE_FORMATS_def endswith_def py_lower_def
      lower_char_def ascii_uppercase_def ascii_lowercase_def)

lemma path_join_samples:
  "path_join REGISTERED_FACES_DIR ''bad.png'' = ''images/registered/bad.png''"
  "path_join REGISTERED_FACES_DIR ''a.jpg'' = ''images/registered/a.jpg''"
  "path_join REGISTERED_FACES_DIR ''b.jpg'' = ''images/registered/b.jpg''"
  "path_join REGISTERED_FACES_DIR ''c.jpg'' = ''images/registered/c.jpg''"
  by (simp_all add: path_join_def REGISTERED_FACES_DIR_def startswith_def endswith_def)

text \<open>
  C2. Whatever the gallery and the capture, when an entry of the listing is a supported
  image on which the comparison reports \<^verbatim>\<open>verified\<close> with a distance below the
  threshold, and no entry before it in the listing is such an entry, \<^verbatim>\<open>verify_face\<close>
  returns that entry with that distance, and the comparisons it has made are those of the
  supported entries up to this one: nothing after it is compared, whatever its distance.
\<close>

theorem verify_face_first_match:
  assumes "gallery env = Dir (pre @ p # post)"
    and "\<forall>q\<in>set pre. \<not> hit (DeepFace_verify env) inp REGISTERED_FACES_DIR q"
    and "is_supported p"
    and "DeepFace_verify env inp (path_join REGISTERED_FACES_DIR p) = Returns (True, d)"
    and "d < FACE_DISTANCE_THRESHOLD"
  shows "fst (verify_face env inp) =
           Returns \<lparr>verified = True, matched_with = Some p, score = Some d, error = None\<rparr> \<and>
         filter is_oracle_call (snd (verify_face env inp)) =
           map (\<lambda>q. OracleCall inp (path_join REGISTERED_FACES_DIR q))
             (filter is_supported (pre @ [p]))"
  using assms(1,3,4,5)
  by (simp add: verify_face_def scan_no_hit_prefix [OF assms(2)] oracle_calls_no_hit [OF assms(2)]
      matched_def scan_hit_head del: scan.simps)

text \<open>The first match of the sample gallery is at distance 0.3, and it wins over the
  later entry at distance 1/64.\<close>

theorem verify_face_first_match_witness:
  "gallery sample_env = Dir ([''.gitkeep'', ''bad.png''] @ ''a.jpg'' # [''b.jpg'']) \<and>
   \<not> hit (DeepFace_verify sample_env) ''in.jpg'' REGISTERED_FACES_DIR ''.gitkeep'' \<and>
   \<not> hit (DeepFace_verify sample_env) ''in.jpg'' REGISTERED_FACES_DIR ''bad.png'' \<and>
   hit (DeepFace_verify sample_env) ''in.jpg'' REGISTERED_FACES_DIR ''b.jpg'' \<and>
   DeepFace_verify sample_env ''in.jpg'' (path_join REGISTERED_FACES_DIR ''b.jpg'') =
     Returns (True, 1 / 64) \<and>
   fst (verify_face sample_env ''in.jpg'') =
     Returns \<lparr>verified = True, matched_with = Some ''a.jpg'', score = Some (3 / 10),
              error = None\<rparr> \<and>
   filter is_oracle_call (snd (verify_face sample_env ''in.jpg'')) =
     [OracleCall ''in.jpg'' ''images/registered/bad.png'',
      OracleCall ''in.jpg'' ''images/registered/a.jpg'']"
proof -
  have g: "gallery sample_env = Dir ([''.gitkeep'', ''bad.png''] @ ''a.jpg'' # [''b.jpg''])"
    by (simp add: sample_env_def)
  have n: "\<forall>q\<in>set [''.gitkeep'', ''bad.png''].
      \<not> hit (DeepFace_verify sample_env) ''in.jpg'' REGISTERED_FACES_DIR q"
    by (simp add: hit_def is_supported_samples path_join_samples sample_env_def
        sample_oracle_def)
  have s: "is_supported ''a.jpg''"
    by (simp add: is_supported_samples)
  have r: "DeepFace_verify sample_env ''in.jpg'' (path_join REGISTERED_FACES_DIR ''a.jpg'') =
      Returns (True, 3 / 10)"
    by (simp add: sample_env_def sample_oracle_def path_join_samples)
  have d: "(3 / 10 :: rat) < FACE_DISTANCE_THRESHOLD"
    by (simp add: FACE_DISTANCE_THRESHOLD_def)
  have b: "DeepFace_verify sample_env ''in.jpg'' (path_join REGISTERED_FACES_DIR ''b.jpg'') =
      Returns (True, 1 / 64)"
    by (simp add: sample_env_def sample_oracle_def path_join_samples)
  have h: "hit (DeepFace_verify sample_env) ''in.jpg'' REGISTERED_FACES_DIR ''b.jpg''"
    by (simp add: hit_def b is_supported_samples FACE_DISTANCE_THRESHOLD_def)
  from verify_face_first_match [OF g n s r d] g n b h show ?thesis
    by (simp add: is_supported_samples path_join_samples)
qed

text \<open>
  C3. Whatever the gallery and the capture, when the comparison raises on a supported
  entry that the scan reaches, \<^verbatim>\<open>verify_face\<close> still returns a result, which is
  the result for the gallery without that entry; it has printed the error of that entry
  right after comparing it, and has gone on with the entries after it as a scan of those
  alone does.
\<close>

theorem verify_face_skips_errors:
  assumes "gallery env = Dir (pre @ p # post)"
    and "\<forall>q\<in>set pre. \<not> hit (DeepFace_verify env) inp REGISTERED_FACES_DIR q"
    and "is_supported p"
    and "DeepFace_verify env inp (path_join REGISTERED_FACES_DIR p) = Raises e"
  shows "(\<exists>r. fst (verify_face env inp) = Returns r) \<and>
         fst (verify_face env inp) =
           fst (verify_face (env\<lparr>gallery := Dir (pre @ post)\<rparr>) inp) \<and>
         snd (verify_face env inp) =
           snd (scan (DeepFace_verify env) inp REGISTERED_FACES_DIR pre) @
           [OracleCall inp (path_join REGISTERED_FACES_DIR p), PrintError p e] @
           snd (scan (DeepFace_verify env) inp REGISTERED_FACES_DIR post)"
  using assms(1,3,4)
  by (simp add: verify_face_def scan_no_hit_prefix [OF assms(2)] scan_raise_head del: scan.simps)

theorem verify_face_skips_errors_witness:
  "gallery sample_env = Dir ([''.gitkeep''] @ ''bad.png'' # [''a.jpg'', ''b.jpg'']) \<and>
   \<not> hit (DeepFace_verify sample_env) ''in.jpg'' REGISTERED_FACES_DIR ''.gitkeep'' \<and>
   is_supported ''bad.png'' \<and>
   DeepFace_verify sample_env ''in.jpg'' (path_join REGISTERED_FACES_DIR ''bad.png'') =
     Raises (OtherException ''corrupt'') \<and>
   fst (verify_face sample_env ''in.jpg'') =
     fst (verify_face (sample_env\<lparr>gallery := Dir ([''.gitkeep''] @ [''a.jpg'', ''b.jpg''])\<rparr>)
            ''in.jpg'') \<and>
   fst (verify_face sample_env ''in.jpg'') = Returns (matched ''a.jpg'' (3 / 10)) \<and>
   snd (verify_face sample_env ''in.jpg'') =
     [OracleCall ''in.jpg'' ''images/registered/bad.png'',
      PrintError ''bad.png'' (OtherException ''corrupt''),
      OracleCall ''in.jpg'' ''images/registered/a.jpg'']"
proof -
  have g: "gallery sample_env = Dir ([''.gitkeep''] @ ''bad.png'' # [''a.jpg'', ''b.jpg''])"
    by (simp add: sample_env_def)
  have n: "\<forall>q\<in>set [''.gitkeep''].
      \<not> hit (DeepFace_verify sample_env) ''in.jpg'' REGISTERED_FACES_DIR q"
    by (simp add: hit_def is_supported_samples)
  have s: "is_supported ''bad.png''"
    by (simp add: is_supported_samples)
  have r: "DeepFace_verify sample_env ''in.jpg'' (path_join REGISTERED_FACES_DIR ''bad.png'') =
      Raises (OtherException ''corrupt'')"
    by (simp add: sample_env_def sample_oracle_def path_join_samples)
  have v: "fst (verify_face sample_env ''in.jpg'') = Returns (matched ''a.jpg'' (3 / 10))"
    by (simp add: verify_face_def sample_env_def sample_oracle_def is_supported_samples
        path_join_samples FACE_DISTANCE_THRESHOLD_def)
  have t: "snd (scan (DeepFace_verify sample_env) ''in.jpg'' REGISTERED_FACES_DIR
        [''a.jpg'', ''b.jpg'']) =
      [OracleCall ''in.jpg'' ''images/registered/a.jpg'']"
    by (simp add: sample_env_def sample_oracle_def is_supported_samples
        path_join_samples FACE_DISTANCE_THRESHOLD_def)
  have u: "snd (scan (DeepFace_verify sample_env) ''in.jpg'' REGISTERED_FACES_DIR
        [''.gitkeep'']) = []"
    by (simp add: is_supported_samples)
  from verify_face_skips_errors [OF g n s r] g n s r v t u show ?thesis
    by (simp add: path_join_samples)
qed

subsection \<open>The handlers\<close>

lemma verify_face_dir:
  "gallery env = Dir es \<Longrightarrow>
   verify_face env inp =
     (Returns (fst (scan (DeepFace_verify env) inp REGISTERED_FACES_DIR es)),
      snd (scan (DeepFace_verify env) inp REGISTERED_FACES_DIR es))"
  by (simp add: verify_face_def apfst_def map_prod_def split: prod.splits)

lemma verify_face_returns:
  "\<not> gallery_check_fails (gallery env) \<Longrightarrow>
   \<exists>r tr. verify_face env inp = (Returns r, tr) \<and> filter is_audit_call tr = [] \<and>
     (r = no_match \<or> (\<exists>p d. r = matched p d))"
  by (cases "gallery env")
     (simp_all add: gallery_check_fails_def verify_face_dir scan_no_audit scan_result)

lemma verify_face_result:
  "fst (verify_face env inp) = Returns r \<Longrightarrow> r = no_match \<or> (\<exists>p d. r = matched p d)"
  using scan_result [of "DeepFace_verify env" inp REGISTERED_FACES_DIR]
  by (cases "gallery env") (auto simp: verify_face_def)

lemma sample_simps:
  "gallery sample_env = Dir [''.gitkeep'', ''bad.png'', ''a.jpg'', ''b.jpg'']"
  "capture_face sample_env = Returns ''images/captured/face.jpg''"
  "basic_spoof_check sample_env = (\<lambda>p. Returns True)"
  "DeepFace_verify sample_env = sample_oracle"
  "log_verification sample_env = (\<lambda>m v s. Returns ())"
  "shutil_copy2 sample_env = (\<lambda>src dst. Returns ())"
  "save_upload sample_env = Returns ''/tmp/upload.jpg''"
  "os_unlink sample_env = (\<lambda>p. Returns ())"
  by (simp_all add: sample_env_def)

lemma sample_scan:
  "scan sample_oracle inp REGISTERED_FACES_DIR [''.gitkeep'', ''bad.png'', ''a.jpg'', ''b.jpg''] =
     (matched ''a.jpg'' (3 / 10),
      [OracleCall inp ''images/registered/bad.png'',
       PrintError ''bad.png'' (OtherException ''corrupt''),
       OracleCall inp ''images/registered/a.jpg''])"
  by (simp add: sample_oracle_def is_supported_samples path_join_samples
      FACE_DISTANCE_THRESHOLD_def)

text \<open>
  C7. A capture that the spoof check rejects never reaches the comparison. On
  \<^verbatim>\<open>/api/verify\<close>, with a gallery that passes the check and a capture that the spoof
  check rejects, the answer is \<^verbatim>\<open>{verified: false, matched_with: null, score: 0.0}\<close>
  and nothing else has happened; on \<^verbatim>\<open>/verify-face\<close>, with an image upload, the
  answer is \<^verbatim>\<open>{match: false, confidence: 0.0}\<close> and nothing else has happened.
  In general, when the spoof check accepts no image, neither handler calls the
  comparison, whatever the request.
\<close>

theorem spoof_gate_short_circuits:
  "(\<not> gallery_check_fails (gallery env) \<and> capture_face env = Returns p \<and>
    basic_spoof_check env p = Returns False \<longrightarrow>
      verify env =
        (OK \<lparr>verified = False, matched_with = None, score = Some 0, error = None\<rparr>, [])) \<and>
   (startswith ct ''image/'' \<and> \<not> gallery_check_fails (gallery env) \<and>
    save_upload env = Returns t \<and> basic_spoof_check env t = Returns False \<and>
    os_unlink env t = Returns () \<longrightarrow>
      verify_face_from_photo env (Some ct) = (OK \<lparr>match = False, confidence = 0\<rparr>, [])) \<and>
   ((\<forall>q. basic_spoof_check env q \<noteq> Returns True) \<longrightarrow>
      filter is_oracle_call (snd (verify env)) = [] \<and>
      filter is_oracle_call (snd (verify_face_from_photo env c)) = [])"
proof (intro conjI impI)
  assume "\<not> gallery_check_fails (gallery env) \<and> capture_face env = Returns p \<and>
    basic_spoof_check env p = Returns False"
  then show "verify env =
        (OK \<lparr>verified = False, matched_with = None, score = Some 0, error = None\<rparr>, [])"
    by (simp add: verify_def verify_body_def spoof_rejected_def)
next
  assume "startswith ct ''image/'' \<and> \<not> gallery_check_fails (gallery env) \<and>
    save_upload env = Returns t \<and> basic_spoof_check env t = Returns False \<and>
    os_unlink env t = Returns ()"
  then show "verify_face_from_photo env (Some ct) = (OK \<lparr>match = False, confidence = 0\<rparr>, [])"
    by (simp add: verify_face_from_photo_def photo_body_def photo_finally_def photo_inner_def)
next
  assume a: "\<forall>q. basic_spoof_check env q \<noteq> Returns True"
  show "filter is_oracle_call (snd (verify env)) = []"
    using a by (auto simp: verify_def verify_body_def split: outcome.splits)
next
  assume a: "\<forall>q. basic_spoof_check env q \<noteq> Returns True"
  show "filter is_oracle_call (snd (verify_face_from_photo env c)) = []"
    using a
    by (auto simp: verify_face_from_photo_def photo_body_def photo_finally_def photo_inner_def
        split: outcome.splits option.splits)
qed

theorem spoof_gate_short_circuits_witness:
  "\<not> gallery_check_fails (gallery spoof_env) \<and>
   capture_face spoof_env = Returns ''images/captured/face.jpg'' \<and>
   basic_spoof_check spoof_env ''images/captured/face.jpg'' = Returns False \<and>
   startswith ''image/jpeg'' ''image/'' \<and>
   save_upload spoof_env = Returns ''/tmp/upload.jpg'' \<and>
   basic_spoof_check spoof_env ''/tmp/upload.jpg'' = Returns False \<and>
   os_unlink spoof_env ''/tmp/upload.jpg'' = Returns () \<and>
   verify spoof_env =
     (OK \<lparr>verified = False, matched_with = None, score = Some 0, error = None\<rparr>, []) \<and>
   verify_face_from_photo spoof_env (Some ''image/jpeg'') =
     (OK \<lparr>match = False, confidence = 0\<rparr>, []) \<and>
   filter is_oracle_call (snd (verify spoof_env)) = [] \<and>
   filter is_oracle_call (snd (verify_face_from_photo spoof_env (Some ''image/jpeg''))) = []"
proof -
  have h: "\<not> gallery_check_fails (gallery spoof_env)"
      "capture_face spoof_env = Returns ''images/captured/face.jpg''"
      "basic_spoof_check spoof_env ''images/captured/face.jpg'' = Returns False"
      "startswith ''image/jpeg'' ''image/''"
      "save_upload spoof_env = Returns ''/tmp/upload.jpg''"
      "basic_spoof_check spoof_env ''/tmp/upload.jpg'' = Returns False"
      "os_unlink spoof_env ''/tmp/upload.jpg'' = Returns ()"
      "\<forall>q. basic_spoof_check spoof_env q \<noteq> Returns True"
    by (simp_all add: spoof_env_def sample_simps gallery_check_fails_def startswith_def)
  from spoof_gate_short_circuits [of spoof_env "''images/captured/face.jpg''" "''image/jpeg''"
      "''/tmp/upload.jpg''" "Some ''image/jpeg''"] h
  show ?thesis by simp
qed

text \<open>
  C8, as the claim states it, fails: an attempt that the spoof check rejects appends no
  audit record, on either endpoint.
\<close>

theorem audit_skipped_on_rejection:
  "length (filter is_audit_call (snd (verify spoof_env))) = 0 \<and>
   length (filter is_audit_call
             (snd (verify_face_from_photo spoof_env (Some ''image/jpeg'')))) = 0"
  by (simp add: verify_def verify_body_def spoof_env_def sample_simps gallery_check_fails_def
      verify_face_from_photo_def photo_body_def photo_finally_def photo_inner_def startswith_def)

text \<open>
  C8, amended. An attempt that passes the gallery check, obtains its image and passes the
  spoof check calls the audit log exactly once, with the identity, the verdict and the
  distance of the result of \<^verbatim>\<open>verify_face\<close>, matched or not. An attempt that is
  rejected, by the gallery check or by a spoof check that accepts no image, calls it not
  at all.
\<close>

theorem audit_once_after_gate:
  "(\<not> gallery_check_fails (gallery env) \<and> capture_face env = Returns p \<and>
    basic_spoof_check env p = Returns True \<longrightarrow>
      (\<exists>r. fst (verify_face env p) = Returns r \<and>
           filter is_audit_call (snd (verify env)) =
             [AuditCall (matched_with r) (verified r) (score r)])) \<and>
   (startswith ct ''image/'' \<and> \<not> gallery_check_fails (gallery env) \<and>
    save_upload env = Returns t \<and> basic_spoof_check env t = Returns True \<longrightarrow>
      (\<exists>r. fst (verify_face env t) = Returns r \<and>
           filter is_audit_call (snd (verify_face_from_photo env (Some ct))) =
             [AuditCall (matched_with r) (verified r) (score r)])) \<and>
   (gallery_check_fails (gallery env) \<or> (\<forall>q. basic_spoof_check env q \<noteq> Returns True) \<longrightarrow>
      filter is_audit_call (snd (verify env)) = [] \<and>
      filter is_audit_call (snd (verify_face_from_photo env c)) = [])"
proof (intro conjI impI)
  assume a: "\<not> gallery_check_fails (gallery env) \<and> capture_face env = Returns p \<and>
    basic_spoof_check env p = Returns True"
  then obtain r tr where v: "verify_face env p = (Returns r, tr)" "filter is_audit_call tr = []"
    using verify_face_returns [of env p] by blast
  show "\<exists>r. fst (verify_face env p) = Returns r \<and>
           filter is_audit_call (snd (verify env)) =
             [AuditCall (matched_with r) (verified r) (score r)]"
    using a v by (auto simp: verify_def verify_body_def Let_def split: outcome.splits)
next
  assume a: "startswith ct ''image/'' \<and> \<not> gallery_check_fails (gallery env) \<and>
    save_upload env = Returns t \<and> basic_spoof_check env t = Returns True"
  then obtain r tr where v: "verify_face env t = (Returns r, tr)" "filter is_audit_call tr = []"
      "r = no_match \<or> (\<exists>p d. r = matched p d)"
    using verify_face_returns [of env t] by blast
  show "\<exists>r. fst (verify_face env t) = Returns r \<and>
           filter is_audit_call (snd (verify_face_from_photo env (Some ct))) =
             [AuditCall (matched_with r) (verified r) (score r)]"
    using a v
    by (auto simp: verify_face_from_photo_def photo_body_def photo_finally_def photo_inner_def
        Let_def no_match_def matched_def split: outcome.splits)
next
  assume a: "gallery_check_fails (gallery env) \<or> (\<forall>q. basic_spoof_check env q \<noteq> Returns True)"
  show "filter is_audit_call (snd (verify env)) = []"
    using a by (auto simp: verify_def verify_body_def split: outcome.splits)
next
  assume a: "gallery_check_fails (gallery env) \<or> (\<forall>q. basic_spoof_check env q \<noteq> Returns True)"
  show "filter is_audit_call (snd (verify_face_from_photo env c)) = []"
    using a
    by (auto simp: verify_face_from_photo_def photo_body_def photo_finally_def photo_inner_def
        split: outcome.splits option.splits)
qed

theorem audit_once_after_gate_witness:
  "\<not> gallery_check_fails (gallery sample_env) \<and>
   capture_face sample_env = Returns ''images/captured/face.jpg'' \<and>
   basic_spoof_check sample_env ''images/captured/face.jpg'' = Returns True \<and>
   startswith ''image/jpeg'' ''image/'' \<and>
   save_upload sample_env = Returns ''/tmp/upload.jpg'' \<and>
   basic_spoof_check sample_env ''/tmp/upload.jpg'' = Returns True \<and>
   filter is_audit_call (snd (verify sample_env)) =
     [AuditCall (Some ''a.jpg'') True (Some (3 / 10))] \<and>
   filter is_audit_call (snd (verify_face_from_photo sample_env (Some ''image/jpeg''))) =
     [AuditCall (Some ''a.jpg'') True (Some (3 / 10))] \<and>
   gallery_check_fails (gallery (sample_env\<lparr>gallery := Dir []\<rparr>)) \<and>
   filter is_audit_call (snd (verify (sample_env\<lparr>gallery := Dir []\<rparr>))) = [] \<and>
   filter is_audit_call
     (snd (verify_face_from_photo (sample_env\<lparr>gallery := Dir []\<rparr>) (Some ''image/jpeg''))) = []"
proof -
  have h: "\<not> gallery_check_fails (gallery sample_env)"
      "capture_face sample_env = Returns ''images/captured/face.jpg''"
      "basic_spoof_check sample_env ''images/captured/face.jpg'' = Returns True"
      "startswith ''image/jpeg'' ''image/''"
      "save_upload sample_env = Returns ''/tmp/upload.jpg''"
      "basic_spoof_check sample_env ''/tmp/upload.jpg'' = Returns True"
    by (simp_all add: sample_simps gallery_check_fails_def startswith_def)
  have v: "fst (verify_face sample_env inp) = Returns (matched ''a.jpg'' (3 / 10))" for inp
    by (simp add: verify_face_dir [OF sample_simps(1)] sample_simps sample_scan del: scan.simps)
  have e: "gallery_check_fails (gallery (sample_env\<lparr>gallery := Dir []\<rparr>))"
    by (simp add: gallery_check_fails_def)
  from audit_once_after_gate [of sample_env "''images/captured/face.jpg''" "''image/jpeg''"
      "''/tmp/upload.jpg''" None]
    audit_once_after_gate [of "sample_env\<lparr>gallery := Dir []\<rparr>" "[]" "[]" "[]"
      "Some ''image/jpeg''"] h v e
  show ?thesis by (simp add: matched_def)
qed

lemma verify_face_result_pair:
  "verify_face env inp = (Returns r, tr) \<Longrightarrow> r = no_match \<or> (\<exists>p d. r = matched p d)"
  using verify_face_result [of env inp r] by simp

lemma verify_body_result:
  "fst (verify_body env) = Returns r \<Longrightarrow>
   r = spoof_rejected \<or> r = no_match \<or> (\<exists>p d. r = matched p d)"
  by (auto simp: verify_body_def Let_def dest: verify_face_result_pair
      split: if_splits outcome.splits prod.splits)

text \<open>What the gallery check of the two handlers does catch: a directory that is
  absent or has no entry at all is answered with status 400.\<close>

lemma gallery_check_400:
  "gallery_check_fails (gallery env) \<Longrightarrow>
   verify env = (HTTPError 400 no_faces_detail, []) \<and>
   (startswith ct ''image/'' \<longrightarrow>
      verify_face_from_photo env (Some ct) =
        (HTTPError 400 ''No registered employees found in system'', []))"
  by (simp add: verify_def verify_body_def verify_face_from_photo_def photo_body_def)

text \<open>
  C1. The code at a gallery without any identity: the directory holds only the
  placeholder \<^verbatim>\<open>.gitkeep\<close>, which the scan skips. The gallery check looks at the
  raw listing, finds it non-empty and lets the request through; \<^verbatim>\<open>/api/verify\<close>
  answers with the plain no-match result and \<^verbatim>\<open>/verify-face\<close> with
  \<^verbatim>\<open>{match: false, confidence: 0.0}\<close>, where the claim promises status 400.
\<close>

theorem placeholder_gallery_runs:
  "identities (gallery placeholder_env) = [] \<and>
   verify placeholder_env =
     (OK \<lparr>verified = False, matched_with = None, score = None, error = None\<rparr>,
      [AuditCall None False None]) \<and>
   verify_face_from_photo placeholder_env (Some ''image/jpeg'') =
     (OK \<lparr>match = False, confidence = 0\<rparr>, [AuditCall None False None])"
  by (simp add: placeholder_env_def sample_simps identities_def is_supported_samples
      verify_def verify_body_def gallery_check_fails_def verify_face_def no_match_def
      verify_face_from_photo_def photo_body_def photo_finally_def photo_inner_def startswith_def)

text \<open>
  C4, as the claim states it, fails: the result of \<^verbatim>\<open>/api/verify\<close> for a capture
  that the spoof check rejects is not verified and yet has a distance, the score 0.0.
\<close>

theorem spoof_result_has_score:
  "fst (verify spoof_env) =
     OK \<lparr>verified = False, matched_with = None, score = Some 0, error = None\<rparr> \<and>
   (score \<lparr>verified = False, matched_with = None, score = Some (0::rat), error = None\<rparr>
      \<noteq> None) \<noteq>
     verified \<lparr>verified = False, matched_with = None, score = Some (0::rat), error = None\<rparr>"
  by (simp add: verify_def verify_body_def spoof_env_def sample_simps gallery_check_fails_def
      spoof_rejected_def)

text \<open>
  C4, amended. In every result that \<^verbatim>\<open>verify_face\<close> returns, the identity is
  present exactly when the result is verified, and so is the distance. Every result that
  the handler of \<^verbatim>\<open>/api/verify\<close> returns without the key \<^verbatim>\<open>error\<close> has the
  identity present exactly when it is verified, and either has the distance present
  exactly when it is verified or is the result of a spoof rejection,
  \<^verbatim>\<open>{verified: false, matched_with: null, score: 0.0}\<close>.
\<close>

theorem result_invariant:
  "(fst (verify_face env inp) = Returns r \<longrightarrow>
      (matched_with r \<noteq> None) = verified r \<and> (score r \<noteq> None) = verified r) \<and>
   (fst (verify env) = OK r' \<and> error r' = None \<longrightarrow>
      (matched_with r' \<noteq> None) = verified r' \<and>
      ((score r' \<noteq> None) = verified r' \<or>
       r' = \<lparr>verified = False, matched_with = None, score = Some 0, error = None\<rparr>))"
proof (rule conjI; rule impI)
  assume "fst (verify_face env inp) = Returns r"
  from verify_face_result [OF this]
  show "(matched_with r \<noteq> None) = verified r \<and> (score r \<noteq> None) = verified r"
    by (auto simp: no_match_def matched_def)
next
  assume a: "fst (verify env) = OK r' \<and> error r' = None"
  have "r' = spoof_rejected \<or> r' = no_match \<or> (\<exists>p d. r' = matched p d)"
  proof (cases "fst (verify_body env)")
    case (Returns x)
    with a have "x = r'" by (simp add: verify_def)
    with verify_body_result [OF Returns] show ?thesis by simp
  next
    case (Raises e)
    with a show ?thesis by (cases e) (auto simp: verify_def internal_error_def)
  qed
  then show "(matched_with r' \<noteq> None) = verified r' \<and>
      ((score r' \<noteq> None) = verified r' \<or>
       r' = \<lparr>verified = False, matched_with = None, score = Some 0, error = None\<rparr>)"
    by (auto simp: no_match_def matched_def spoof_rejected_def)
qed

theorem result_invariant_witness:
  "fst (verify_face sample_env ''in.jpg'') = Returns (matched ''a.jpg'' (3 / 10)) \<and>
   fst (verify sample_env) = OK (matched ''a.jpg'' (3 / 10)) \<and>
   error (matched ''a.jpg'' (3 / 10)) = None \<and>
   verified (matched ''a.jpg'' (3 / 10)) \<and>
   matched_with (matched ''a.jpg'' (3 / 10)) \<noteq> None \<and>
   score (matched ''a.jpg'' (3 / 10)) \<noteq> None \<and>
   fst (verify_face stranger_env ''in.jpg'') = Returns no_match \<and>
   \<not> verified no_match \<and> matched_with no_match = None \<and> score no_match = None"
proof -
  have v: "fst (verify_face sample_env inp) = Returns (matched ''a.jpg'' (3 / 10))" for inp
    by (simp add: verify_face_dir [OF sample_simps(1)] sample_simps sample_scan del: scan.simps)
  have w: "fst (verify sample_env) = OK (matched ''a.jpg'' (3 / 10))"
    by (simp add: verify_def verify_body_def gallery_check_fails_def sample_simps
        verify_face_dir [OF sample_simps(1)] sample_scan del: scan.simps)
  have e: "error (matched ''a.jpg'' (3 / 10)) = None"
    by (simp add: matched_def)
  have n: "fst (verify_face stranger_env ''in.jpg'') = Returns no_match"
    by (simp add: stranger_env_def sample_simps verify_face_def sample_oracle_def
        is_supported_samples path_join_samples FACE_DISTANCE_THRESHOLD_def)
  from result_invariant [of sample_env "''in.jpg''" "matched ''a.jpg'' (3 / 10)"
      "matched ''a.jpg'' (3 / 10)"]
    result_invariant [of stranger_env "''in.jpg''" no_match no_match] v w e n
  show ?thesis by (simp add: matched_def no_match_def)
qed

text \<open>
  C9. The code at a request whose capture fails: the camera cannot be opened and
  \<^verbatim>\<open>capture_face\<close> raises. The last \<^verbatim>\<open>except\<close> clause of \<^verbatim>\<open>verify\<close>
  returns a result dictionary, so the request is answered with status 200 and a body of
  the type of a verification result; the key \<^verbatim>\<open>error\<close> is not a field of the
  response model, and the answer is the very answer of a spoof rejection. A gallery in
  which nobody matches is answered with the same fields, the score being null. On
  \<^verbatim>\<open>/verify-face\<close> a failure of the same kind is answered with status 500.
\<close>

theorem camera_failure_reported_as_result:
  "verify camera_down_env =
     (OK \<lparr>verified = False, matched_with = None, score = Some 0,
          error = Some ''Internal server error''\<rparr>, []) \<and>
   api_verify camera_down_env =
     OK \<lparr>r_verified = False, r_matched_with = None, r_score = Some 0\<rparr> \<and>
   api_verify camera_down_env = api_verify spoof_env \<and>
   api_verify stranger_env =
     OK \<lparr>r_verified = False, r_matched_with = None, r_score = None\<rparr> \<and>
   verify_face_from_photo (sample_env\<lparr>save_upload := Raises (OtherException ''no disk'')\<rparr>)
       (Some ''image/jpeg'') =
     (HTTPError 500 ''Face verification failed'', [])"
  by (simp add: camera_down_env_def spoof_env_def stranger_env_def sample_simps
      verify_def verify_body_def gallery_check_fails_def api_verify_def internal_error_def
      spoof_rejected_def to_FaceVerifyResponse_def verify_face_def no_match_def
      sample_oracle_def is_supported_samples path_join_samples FACE_DISTANCE_THRESHOLD_def
      verify_face_from_photo_def photo_body_def startswith_def)

subsection \<open>The rounding to a double\<close>

text \<open>The exponent that \<open>ilog2\<close> computes is the one of its argument, and the rounded
  value is within half a unit in the last place of the exact one.\<close>

lemma pow2_nonneg_exp: "0 \<le> e \<Longrightarrow> pow2 e = 2 ^ nat e"
  by (simp add: pow2_def)

lemma pow2_neg_exp: "e \<le> 0 \<Longrightarrow> pow2 e = 1 / 2 ^ nat (- e)"
  by (cases "e = 0") (simp_all add: pow2_def)

lemma ilog2_bounds_ge1:
  assumes "1 \<le> a"
  shows "pow2 (ilog2 a) \<le> a \<and> a < pow2 (ilog2 a + 1)"
proof -
  let ?n = "\<lfloor>a\<rfloor>"
  have n: "0 < ?n" using assms by simp
  then have b: "1 \<le> bitlen ?n" by (auto simp: bitlen_alt_def)
  from bitlen_bounds [OF n]
  have lo: "2 ^ nat (bitlen ?n - 1) \<le> ?n" and hi: "?n < 2 ^ nat (bitlen ?n)" by auto
  have i: "ilog2 a = bitlen ?n - 1" using assms by (simp add: ilog2_def)
  have "(of_int (2 ^ nat (bitlen ?n - 1)) :: rat) \<le> of_int ?n"
    using lo by (simp only: of_int_le_iff)
  also have "\<dots> \<le> a" by (rule of_int_floor_le)
  finally have 1: "pow2 (ilog2 a) \<le> a"
    using b by (simp add: i pow2_nonneg_exp)
  have "a < of_int (?n + 1)" by (rule floor_correct [THEN conjunct2])
  also have "(of_int (?n + 1) :: rat) \<le> of_int (2 ^ nat (bitlen ?n))"
    using hi by (simp only: of_int_le_iff)
  finally have 2: "a < pow2 (ilog2 a + 1)"
    using b by (simp add: i pow2_nonneg_exp)
  from 1 2 show ?thesis ..
qed


lemma ilog2_bounds_lt1:
  assumes "0 < a" and "a < 1"
  shows "pow2 (ilog2 a) \<le> a \<and> a < pow2 (ilog2 a + 1)"
proof -
  let ?y = "1 / a"
  let ?m = "\<lceil>?y\<rceil> - 1"
  let ?k = "bitlen ?m"
  have y: "1 < ?y" using assms by simp
  then have "1 < \<lceil>?y\<rceil>" by (simp only: less_ceiling_iff of_int_1)
  then have m: "0 < ?m" by simp
  then have k: "1 \<le> ?k" by (auto simp: bitlen_alt_def)
  from bitlen_bounds [OF m]
  have lo: "2 ^ nat (?k - 1) \<le> ?m" and hi: "?m < 2 ^ nat ?k" by auto
  have i: "ilog2 a = - ?k" using assms by (simp add: ilog2_def)
  have "?y \<le> of_int \<lceil>?y\<rceil>" by (rule le_of_int_ceiling)
  also have "(of_int \<lceil>?y\<rceil> :: rat) \<le> of_int (2 ^ nat ?k)"
    using hi by (simp only: of_int_le_iff)
  finally have u: "?y \<le> 2 ^ nat ?k" by simp
  have "1 \<le> a * 2 ^ nat ?k"
    using u assms(1) by (simp only: pos_divide_le_eq) (simp only: mult.commute)
  then have 1: "pow2 (ilog2 a) \<le> a"
    using k by (simp add: i pow2_neg_exp pos_divide_le_eq)
  have "(of_int (2 ^ nat (?k - 1)) :: rat) \<le> of_int ?m"
    using lo by (simp only: of_int_le_iff)
  also have "(of_int ?m :: rat) < ?y"
    using ceiling_correct [of ?y] by (simp only: of_int_diff of_int_1)
  finally have w: "2 ^ nat (?k - 1) < ?y" by simp
  have "a * 2 ^ nat (?k - 1) < 1"
    using w assms(1) by (simp only: pos_less_divide_eq) (simp only: mult.commute)
  then have 2: "a < pow2 (ilog2 a + 1)"
    using k by (simp add: i pow2_neg_exp pos_less_divide_eq)
  from 1 2 show ?thesis ..
qed


lemma ilog2_bounds:
  "0 < a \<Longrightarrow> pow2 (ilog2 a) \<le> a \<and> a < pow2 (ilog2 a + 1)"
  using ilog2_bounds_ge1 [of a] ilog2_bounds_lt1 [of a] by (cases "1 \<le> a") simp_all

lemma round_half_even_near: "\<bar>of_int (round_half_even y) - y\<bar> \<le> 1 / 2"
proof -
  have "of_int \<lfloor>y\<rfloor> \<le> y" and "y < of_int \<lfloor>y\<rfloor> + 1"
    using floor_correct [of y] by simp_all
  then show ?thesis
    unfolding round_half_even_def Let_def by (auto simp: abs_le_iff)
qed

lemma round_double_near:
  assumes "x \<noteq> 0"
  shows "\<bar>round_double x - x\<bar> \<le> pow2 (ilog2 \<bar>x\<bar> - 52) / 2"
proof -
  let ?q = "pow2 (ilog2 \<bar>x\<bar> - 52)"
  have q: "0 < ?q"
    by (simp add: pow2_def)
  have "round_double x - x = (of_int (round_half_even (x / ?q)) - x / ?q) * ?q"
    using assms q by (simp add: round_double_def Let_def algebra_simps)
  then have "\<bar>round_double x - x\<bar> = \<bar>of_int (round_half_even (x / ?q)) - x / ?q\<bar> * ?q"
    using q by (simp add: abs_mult)
  also have "\<dots> \<le> 1 / 2 * ?q"
    using round_half_even_near [of "x / ?q"] q by (intro mult_right_mono) simp_all
  finally show ?thesis by simp
qed

subsection \<open>The confidence of an upload\<close>

lemma pow2_pos: "0 < pow2 e"
  by (simp add: pow2_def)

lemma round_half_even_nonpos: "y \<le> 0 \<Longrightarrow> round_half_even y \<le> 0"
  unfolding round_half_even_def Let_def by auto

lemma round_double_nonpos:
  assumes "x \<le> 0"
  shows "round_double x \<le> 0"
proof (cases "x = 0")
  case True
  then show ?thesis by (simp add: round_double_def)
next
  case False
  let ?q = "pow2 (ilog2 \<bar>x\<bar> - 52)"
  have "x / ?q \<le> 0"
    using assms pow2_pos [of "ilog2 \<bar>x\<bar> - 52"] by (simp add: divide_nonpos_pos)
  then have "round_half_even (x / ?q) \<le> 0"
    by (rule round_half_even_nonpos)
  then have "of_int (round_half_even (x / ?q)) * ?q \<le> 0"
    using pow2_pos [of "ilog2 \<bar>x\<bar> - 52"] by (simp add: mult_le_0_iff)
  with False show ?thesis by (simp add: round_double_def Let_def)
qed

lemma confidence_of_far:
  assumes "1 \<le> d"
  shows "max 0 (min 100 (float_mul (float_sub 1 d) 100)) = 0"
proof -
  have "float_sub 1 d \<le> 0"
    unfolding float_sub_def using assms by (intro round_double_nonpos) simp
  then have "float_sub 1 d * 100 \<le> 0" by simp
  then have "float_mul (float_sub 1 d) 100 \<le> 0"
    unfolding float_mul_def by (rule round_double_nonpos)
  then show ?thesis by simp
qed

lemma float_samples:
  "py_round1 0 = 0"
  "py_round1 (1575 / 16) = 3462142213541069 / 35184372088832"
  "py_round1 (max 0 (min 100 (float_mul (float_sub 1 0) 100))) = 100"
  "max 0 (min 100 (float_mul (float_sub 1 (1 / 64)) 100)) = 1575 / 16"
  "py_round1 (max 0 (min 100 (float_mul (float_sub 1 (1 / 64)) 100))) =
     3462142213541069 / 35184372088832"
  by code_simp+

lemma scan_verified_below:
  "verified (fst (scan orc inp dir es)) \<Longrightarrow> score (fst (scan orc inp dir es)) = Some d \<Longrightarrow>
   d < FACE_DISTANCE_THRESHOLD"
  by (induction es) (auto simp: Let_def no_match_def matched_def split: outcome.splits if_splits)

lemma verify_face_verified_below:
  "fst (verify_face env inp) = Returns r \<Longrightarrow> verified r \<Longrightarrow> score r = Some d \<Longrightarrow>
   d < FACE_DISTANCE_THRESHOLD"
  using scan_verified_below [of "DeepFace_verify env" inp REGISTERED_FACES_DIR _ d]
  by (cases "gallery env") (auto simp: verify_face_def)

lemma close_scan:
  "scan sample_oracle inp REGISTERED_FACES_DIR [''b.jpg''] =
     (matched ''b.jpg'' (1 / 64), [OracleCall inp ''images/registered/b.jpg''])"
  by (simp add: sample_oracle_def is_supported_samples path_join_samples
      FACE_DISTANCE_THRESHOLD_def)

text \<open>
  C5, as the claim states it, fails: for a match at distance 1/64 the clamped value is
  98.4375, in exact arithmetic and in the arithmetic of floats alike, and the endpoint
  returns the float 98.4.
\<close>

theorem confidence_is_rounded:
  "fst (verify_face close_env ''/tmp/upload.jpg'') = Returns (matched ''b.jpg'' (1 / 64)) \<and>
   fst (verify_face_from_photo close_env (Some ''image/jpeg'')) =
     OK \<lparr>match = True, confidence = 3462142213541069 / 35184372088832\<rparr> \<and>
   max 0 (min 100 ((1 - 1 / 64) * 100)) = (1575 / 16 :: rat) \<and>
   max 0 (min 100 (float_mul (float_sub 1 (1 / 64)) 100)) = 1575 / 16 \<and>
   (3462142213541069 / 35184372088832 :: rat) \<noteq> 1575 / 16"
  by (simp add: close_env_def sample_simps verify_face_def close_scan
      verify_face_from_photo_def photo_body_def photo_finally_def photo_inner_def startswith_def
      gallery_check_fails_def matched_def confidence_of_def float_samples del: scan.simps)

text \<open>
  C5, amended. On \<^verbatim>\<open>/verify-face\<close>, for an image upload that reaches the scan and
  whose audit call and clean-up succeed: when \<^verbatim>\<open>verify_face\<close> reports a match, at
  a distance \<open>d\<close> that is then below the threshold, the answer is a match whose
  confidence is \<^verbatim>\<open>round(max(0.0, min(100.0, (1 - d) * 100)), 1)\<close> in the arithmetic
  of floats, the clamped value rounded to one decimal place; when it reports no match,
  the answer is \<^verbatim>\<open>{match: false, confidence: 0.0}\<close>. The conversion maps the distance
  0 to the confidence 100 and every distance from 1 upwards to 0.
\<close>

theorem photo_confidence:
  "(startswith ct ''image/'' \<and> \<not> gallery_check_fails (gallery env) \<and>
    save_upload env = Returns t \<and> basic_spoof_check env t = Returns True \<and>
    os_unlink env t = Returns () \<and> fst (verify_face env t) = Returns r \<longrightarrow>
      (verified r \<and> score r = Some d \<and>
       log_verification env (matched_with r) True (Some d) = Returns () \<longrightarrow>
         d < FACE_DISTANCE_THRESHOLD \<and>
         fst (verify_face_from_photo env (Some ct)) =
           OK \<lparr>match = True,
               confidence = py_round1 (max 0 (min 100 (float_mul (float_sub 1 d) 100)))\<rparr>) \<and>
      (\<not> verified r \<and> log_verification env None False None = Returns () \<longrightarrow>
         fst (verify_face_from_photo env (Some ct)) = OK \<lparr>match = False, confidence = 0\<rparr>)) \<and>
   py_round1 (max 0 (min 100 (float_mul (float_sub 1 0) 100))) = 100 \<and>
   (1 \<le> d' \<longrightarrow> py_round1 (max 0 (min 100 (float_mul (float_sub 1 d') 100))) = 0)"
proof (intro conjI impI)
  assume a: "startswith ct ''image/'' \<and> \<not> gallery_check_fails (gallery env) \<and>
    save_upload env = Returns t \<and> basic_spoof_check env t = Returns True \<and>
    os_unlink env t = Returns () \<and> fst (verify_face env t) = Returns r"
    and b: "verified r \<and> score r = Some d \<and>
       log_verification env (matched_with r) True (Some d) = Returns ()"
  show "fst (verify_face_from_photo env (Some ct)) =
           OK \<lparr>match = True,
               confidence = py_round1 (max 0 (min 100 (float_mul (float_sub 1 d) 100)))\<rparr>"
    using a b
    by (cases "verify_face env t")
       (simp add: verify_face_from_photo_def photo_body_def photo_finally_def photo_inner_def
        confidence_of_def Let_def)
  show "d < FACE_DISTANCE_THRESHOLD"
    using a b by (blast intro: verify_face_verified_below)
next
  assume a: "startswith ct ''image/'' \<and> \<not> gallery_check_fails (gallery env) \<and>
    save_upload env = Returns t \<and> basic_spoof_check env t = Returns True \<and>
    os_unlink env t = Returns () \<and> fst (verify_face env t) = Returns r"
    and b: "\<not> verified r \<and> log_verification env None False None = Returns ()"
  show "fst (verify_face_from_photo env (Some ct)) = OK \<lparr>match = False, confidence = 0\<rparr>"
    using a b
    by (cases "verify_face env t")
       (simp add: verify_face_from_photo_def photo_body_def photo_finally_def photo_inner_def
        Let_def)
next
  show "py_round1 (max 0 (min 100 (float_mul (float_sub 1 0) 100))) = 100"
    by (rule float_samples)
next
  assume "1 \<le> d'"
  then show "py_round1 (max 0 (min 100 (float_mul (float_sub 1 d') 100))) = 0"
    by (simp only: confidence_of_far float_samples)
qed

theorem photo_confidence_witness:
  "startswith ''image/jpeg'' ''image/'' \<and> \<not> gallery_check_fails (gallery close_env) \<and>
   save_upload close_env = Returns ''/tmp/upload.jpg'' \<and>
   basic_spoof_check close_env ''/tmp/upload.jpg'' = Returns True \<and>
   os_unlink close_env ''/tmp/upload.jpg'' = Returns () \<and>
   fst (verify_face close_env ''/tmp/upload.jpg'') = Returns (matched ''b.jpg'' (1 / 64)) \<and>
   log_verification close_env (Some ''b.jpg'') True (Some (1 / 64)) = Returns () \<and>
   fst (verify_face_from_photo close_env (Some ''image/jpeg'')) =
     OK \<lparr>match = True, confidence = 3462142213541069 / 35184372088832\<rparr> \<and>
   fst (verify_face stranger_env ''/tmp/upload.jpg'') = Returns no_match \<and>
   log_verification stranger_env None False None = Returns () \<and>
   fst (verify_face_from_photo stranger_env (Some ''image/jpeg'')) =
     OK \<lparr>match = False, confidence = 0\<rparr> \<and>
   (1 :: rat) \<le> 3 / 2 \<and> py_round1 (max 0 (min 100 (float_mul (float_sub 1 (3 / 2)) 100))) = 0"
proof -
  have h: "startswith ''image/jpeg'' ''image/''" "\<not> gallery_check_fails (gallery close_env)"
      "save_upload close_env = Returns ''/tmp/upload.jpg''"
      "basic_spoof_check close_env ''/tmp/upload.jpg'' = Returns True"
      "os_unlink close_env ''/tmp/upload.jpg'' = Returns ()"
      "log_verification close_env (Some ''b.jpg'') True (Some (1 / 64)) = Returns ()"
    by (simp_all add: close_env_def sample_simps startswith_def gallery_check_fails_def)
  have v: "fst (verify_face close_env ''/tmp/upload.jpg'') = Returns (matched ''b.jpg'' (1 / 64))"
    by (simp add: close_env_def sample_simps verify_face_def close_scan del: scan.simps)
  have k: "\<not> gallery_check_fails (gallery stranger_env)"
      "save_upload stranger_env = Returns ''/tmp/upload.jpg''"
      "basic_spoof_check stranger_env ''/tmp/upload.jpg'' = Returns True"
      "os_unlink stranger_env ''/tmp/upload.jpg'' = Returns ()"
      "log_verification stranger_env None False None = Returns ()"
    by (simp_all add: stranger_env_def sample_simps gallery_check_fails_def)
  have w: "fst (verify_face stranger_env ''/tmp/upload.jpg'') = Returns no_match"
    by (simp add: stranger_env_def sample_simps verify_face_def sample_oracle_def
        is_supported_samples path_join_samples FACE_DISTANCE_THRESHOLD_def)
  from photo_confidence [of "''image/jpeg''" close_env "''/tmp/upload.jpg''"
      "matched ''b.jpg'' (1 / 64)" "1 / 64" "3 / 2"]
    photo_confidence [of "''image/jpeg''" stranger_env "''/tmp/upload.jpg''" no_match 0 0]
    h v k w
  show ?thesis by (simp add: matched_def no_match_def float_samples)
qed

subsection \<open>Registration\<close>












subsection \<open>Registration and listing\<close>


















end
